theory Spec2Isabelle
  imports Main
begin

section \<open>Values and strings\<close>

text \<open>
  The responses of the simulation service are JSON documents. An object is kept as an
  association list of its properties; the first binding of a key is the property.
\<close>

datatype json =
    JNull
  | JBool bool
  | JNum int
  | JStr string
  | JArr "json list"
  | JObj "(string \<times> json) list"

text \<open>
  \<^verbatim>\<open>R.view(R.lensPath(path), x)\<close>: follows the keys of the path through nested objects and
  gives \<^verbatim>\<open>undefined\<close> (here \<open>None\<close>) as soon as a key is missing or the value reached
  is not an object.
\<close>

fun view_path :: "string list \<Rightarrow> json \<Rightarrow> json option" where
  "view_path [] j = Some j"
| "view_path (k # ks) (JObj kvs) =
     (case map_of kvs k of None \<Rightarrow> None | Some v \<Rightarrow> view_path ks v)"
| "view_path (k # ks) _ = None"

text \<open>
  A character of a \<open>string\<close> stands for a code unit below 256. The white space that
  \<^verbatim>\<open>String.prototype.trim\<close> strips, in that range: tab, line feed, vertical tab, form
  feed, carriage return, space and the no-break space.
\<close>

definition isWhiteSpace :: "char \<Rightarrow> bool" where
  "isWhiteSpace c =
     (c = CHR 0x09 \<or> c = CHR 0x0A \<or> c = CHR 0x0B \<or> c = CHR 0x0C \<or> c = CHR 0x0D
      \<or> c = CHR '' '' \<or> c = CHR 0xA0)"

definition trim :: "string \<Rightarrow> string" where
  "trim s = rev (dropWhile isWhiteSpace (rev (dropWhile isWhiteSpace s)))"

text \<open>\<^verbatim>\<open>s.split(' ')\<close>: the pieces between single spaces; the empty string gives one empty piece.\<close>

fun split_space :: "string \<Rightarrow> string list" where
  "split_space [] = [[]]"
| "split_space (c # cs) =
     (if c = CHR '' '' then [] # split_space cs
      else (case split_space cs of [] \<Rightarrow> [[c]] | w # ws \<Rightarrow> (c # w) # ws))"

text \<open>
  Modelled from the spec: \<^verbatim>\<open>stringUtils.isNonBlankString\<close> of \<^verbatim>\<open>@src/utils/string-utils\<close>, the
  "non-blank-string validity check". The argument is a string or \<^verbatim>\<open>undefined\<close> (\<open>None\<close>); it
  holds of a string that is not empty after trimming.
\<close>

definition isNonBlankString :: "string option \<Rightarrow> bool" where
  "isNonBlankString v = (case v of None \<Rightarrow> False | Some s \<Rightarrow> trim s \<noteq> [])"

section \<open>The dialog controller\<close>

text \<open>A response of the transport: \<^verbatim>\<open>{statusCode, body}\<close>.\<close>

record response =
  statusCode :: int
  body :: json

text \<open>What reaches \<^verbatim>\<open>Messenger.error\<close>: an \<^verbatim>\<open>Error\<close> object (its message), the message string
  the response parser found, or the value a lens read (possibly \<^verbatim>\<open>undefined\<close>).\<close>

datatype logged =
    LError string
  | LString string
  | LView "json option"

text \<open>
  Everything a turn does beyond changing the controller's fields, in the order it
  happens: the calls on the REPL view, the requests handed to the base class
  \<^verbatim>\<open>SkillSimulationController\<close>, the messages, the operations on the utterance cache and
  the completion callback.
\<close>

datatype event =
    StartProgressSpinner string
  | UpdateProgressSpinner string
  | TerminateProgressSpinner
  | SuperStartSkillSimulation string bool
  | SuperGetSkillSimulationResult "json option"
  | CachePush string
  | ClearSession
  | MessengerError logged
  | MessengerInfo string
  | MessengerWarn string
  | ReplCallback

text \<open>The fields the base class \<^verbatim>\<open>SkillSimulationController\<close> keeps and the dialog controller
  reads: \<open>p_skillId\<close> and \<open>p_locale\<close> are \<^verbatim>\<open>_skillId\<close> and \<^verbatim>\<open>_locale\<close>.\<close>

record skill_simulation_controller =
  p_skillId :: string
  p_locale :: string

text \<open>\<^verbatim>\<open>DialogController extends SkillSimulationController\<close>, with its two private fields.\<close>

record controller = skill_simulation_controller +
  newSession :: bool
  utteranceCache :: "string list"

text \<open>The configuration object; its \<^verbatim>\<open>newSession\<close> is of type \<^verbatim>\<open>any\<close> and may be absent.\<close>

record configuration =
  cfg_skillId :: string
  cfg_locale :: string
  cfg_newSession :: "json option"

text \<open>
  The collaborators of one turn, none of them in the controller's file. The two methods
  of the base class answer through a callback \<^verbatim>\<open>(err?: Error, response?: any)\<close>, taken to be
  called once: the pair of an optional error (its message) and an optional response. The
  three functions of the response parser read a response body.
\<close>

record collaborators =
  super_startSkillSimulation :: "string \<Rightarrow> bool \<Rightarrow> string option \<times> response option"
  super_getSkillSimulationResult :: "json option \<Rightarrow> string option \<times> response option"
  shouldEndSession :: "json \<Rightarrow> bool"
  getCaption :: "json \<Rightarrow> string list"
  getErrorMessage :: "json \<Rightarrow> string option"

text \<open>The state after a turn, what the turn did, and whether it ended in a \<^verbatim>\<open>TypeError\<close>
  (a property read on \<^verbatim>\<open>undefined\<close>).\<close>

record turn =
  ctrl :: controller
  events :: "event list"
  thrown :: bool

text \<open>
  Modelled from the spec: the constructor of the base class \<^verbatim>\<open>SkillSimulationController\<close>
  (\<^verbatim>\<open>@src/controllers/skill-simulation-controller\<close>), which \<^verbatim>\<open>super(configuration)\<close> runs. The
  configuration "includes information such as skillId, locale, profile, stage"; the skill id
  and the locale are kept for the replay file.
\<close>

definition SkillSimulationController :: "configuration \<Rightarrow> skill_simulation_controller" where
  "SkillSimulationController cfg = \<lparr>p_skillId = cfg_skillId cfg, p_locale = cfg_locale cfg\<rparr>"

text \<open>The constructor of \<^verbatim>\<open>DialogController\<close>: after \<^verbatim>\<open>super(configuration)\<close>,
  \<^verbatim>\<open>configuration.newSession === false ? configuration.newSession : true\<close> and an empty cache.\<close>

definition DialogController :: "configuration \<Rightarrow> controller" where
  "DialogController cfg =
     (let base = SkillSimulationController cfg
      in \<lparr>p_skillId = p_skillId base,
          p_locale = p_locale base,
          newSession = (if cfg_newSession cfg = Some (JBool False) then False else True),
          utteranceCache = []\<rparr>)"

definition clearSession :: "controller \<Rightarrow> controller" where
  "clearSession c = c\<lparr>newSession := True, utteranceCache := []\<rparr>"

text \<open>
  \<^verbatim>\<open>startSkillSimulation\<close>: hands the utterance to the base class and, in the callback,
  pushes it on the cache when a response came. The result is what the caller's callback
  receives, the controller then, and the events.
\<close>

definition startSkillSimulation ::
  "collaborators \<Rightarrow> string \<Rightarrow> bool \<Rightarrow> controller
     \<Rightarrow> (string option \<times> response option) \<times> controller \<times> event list" where
  "startSkillSimulation env utterance ns c =
     (let (err, resp) = super_startSkillSimulation env utterance ns
      in case resp of
           Some r \<Rightarrow>
             ((err, resp), c\<lparr>utteranceCache := utteranceCache c @ [utterance]\<rparr>,
              [SuperStartSkillSimulation utterance ns, CachePush utterance])
         | None \<Rightarrow> ((err, resp), c, [SuperStartSkillSimulation utterance ns]))"

text \<open>
  \<^verbatim>\<open>getSkillSimulationResult\<close>: the callback receives an error (of the transport, or the
  message the parser found in the body) or the response; only in the last case
  \<open>newSession\<close> becomes false. Reading \<^verbatim>\<open>response.body\<close> of an absent response throws.
\<close>

datatype poll_result =
    PollError logged
  | PollResponse response
  | PollThrown

definition truthy_string :: "string option \<Rightarrow> bool" where
  "truthy_string v = (case v of None \<Rightarrow> False | Some s \<Rightarrow> s \<noteq> [])"

definition getSkillSimulationResult ::
  "collaborators \<Rightarrow> json option \<Rightarrow> controller \<Rightarrow> poll_result \<times> controller \<times> event list" where
  "getSkillSimulationResult env simulationId c =
     (let (err, resp) = super_getSkillSimulationResult env simulationId;
          evs = [SuperGetSkillSimulationResult simulationId]
      in case err of
           Some e \<Rightarrow> (PollError (LError e), c, evs)
         | None \<Rightarrow>
             (case resp of
                None \<Rightarrow> (PollThrown, c, evs)
              | Some r \<Rightarrow>
                  (let errorMsg = getErrorMessage env (body r)
                   in if truthy_string errorMsg
                      then (PollError (LString (case errorMsg of Some m \<Rightarrow> m | None \<Rightarrow> [])), c, evs)
                      else (PollResponse r, c\<lparr>newSession := False\<rparr>, evs))))"

text \<open>\<^verbatim>\<open>captions.forEach\<close>: one message for each caption, in order (the colour of the
  prefix is left out).\<close>

definition captionMessages :: "string list \<Rightarrow> event list" where
  "captionMessages captions = map (\<lambda>caption. MessengerInfo (''Alexa > '' @ caption)) captions"

text \<open>The branch of \<^verbatim>\<open>evaluateUtterance\<close> that polls: lines 48 to 66 of the source.\<close>

definition pollAndReport :: "collaborators \<Rightarrow> response \<Rightarrow> controller \<Rightarrow> turn" where
  "pollAndReport env startResponse c =
     (let simulationId = view_path [''id''] (body startResponse);
          (res, c1, evs) = getSkillSimulationResult env simulationId c;
          pre = UpdateProgressSpinner ''Waiting for the simulation response...'' # evs
      in case res of
           PollThrown \<Rightarrow> \<lparr>ctrl = c1, events = pre, thrown = True\<rparr>
         | PollError getErr \<Rightarrow>
             \<lparr>ctrl = c1,
              events = pre @ [TerminateProgressSpinner, MessengerError getErr, ReplCallback],
              thrown = False\<rparr>
         | PollResponse getResponse \<Rightarrow>
             (let captions = captionMessages (getCaption env (body getResponse))
              in if shouldEndSession env (body getResponse)
                 then \<lparr>ctrl = clearSession c1,
                       events = pre @ [TerminateProgressSpinner, MessengerInfo ''Session ended'',
                                       ClearSession] @ captions @ [ReplCallback],
                       thrown = False\<rparr>
                 else \<lparr>ctrl = c1,
                       events = pre @ [TerminateProgressSpinner] @ captions @ [ReplCallback],
                       thrown = False\<rparr>))"

text \<open>
  \<^verbatim>\<open>evaluateUtterance(input, replView, replCallback)\<close>. With neither an error nor a
  response, \<^verbatim>\<open>startResponse.statusCode\<close> throws.
\<close>

definition evaluateUtterance :: "collaborators \<Rightarrow> string \<Rightarrow> controller \<Rightarrow> turn" where
  "evaluateUtterance env input c =
     (let ((startErr, startResponse), c1, evs) =
            startSkillSimulation env (trim input) (newSession c) c;
          pre = StartProgressSpinner ''Sending simulation request to Alexa...'' # evs
      in case startErr of
           Some e \<Rightarrow>
             \<lparr>ctrl = c1,
              events = pre @ [TerminateProgressSpinner, MessengerError (LError e), ReplCallback],
              thrown = False\<rparr>
         | None \<Rightarrow>
             (case startResponse of
                None \<Rightarrow> \<lparr>ctrl = c1, events = pre, thrown = True\<rparr>
              | Some r \<Rightarrow>
                  if statusCode r \<ge> 300
                  then \<lparr>ctrl = c1,
                        events = pre @ [TerminateProgressSpinner,
                                        MessengerError (LView (view_path [''error'', ''message''] (body r))),
                                        ReplCallback],
                        thrown = False\<rparr>
                  else (let t = pollAndReport env r c1
                        in t\<lparr>events := pre @ events t\<rparr>)))"

text \<open>The utterances pushed during a turn, and the cache a list of events leaves.\<close>

fun pushed :: "event list \<Rightarrow> string list" where
  "pushed [] = []"
| "pushed (CachePush u # es) = u # pushed es"
| "pushed (_ # es) = pushed es"

fun replay_cache :: "event list \<Rightarrow> string list \<Rightarrow> string list" where
  "replay_cache [] h = h"
| "replay_cache (CachePush u # es) h = replay_cache es (h @ [u])"
| "replay_cache (ClearSession # es) h = replay_cache es []"
| "replay_cache (_ # es) h = replay_cache es h"

section \<open>The record command and the replay file\<close>

definition quoted :: "string \<Rightarrow> string" where
  "quoted s = CHR 0x22 # s @ [CHR 0x22]"

definition RECORD_FORMAT :: string where
  "RECORD_FORMAT =
     ''Please use the format: '' @ quoted ''.record <fileName>'' @ '' or ''
       @ quoted ''.record <fileName> --append-quit''"

text \<open>An array read at an index: \<^verbatim>\<open>undefined\<close> out of range.\<close>

definition index :: "'a list \<Rightarrow> nat \<Rightarrow> 'a option" where
  "index xs i = (if i < length xs then Some (xs ! i) else None)"

text \<open>What \<^verbatim>\<open>_validateRecordCommandInput\<close> returns: \<^verbatim>\<open>{ filePath, shouldAppendQuit }\<close>, or \<^verbatim>\<open>{}\<close>
  with both properties \<^verbatim>\<open>undefined\<close>.\<close>

record validated =
  filePath :: "string option"
  shouldAppendQuit :: "bool option"

definition validateRecordCommandInput :: "string list \<Rightarrow> string \<Rightarrow> validated \<times> event list" where
  "validateRecordCommandInput recordArgsList recordCommandFormat =
     (let appendQuitArgument = index recordArgsList 1
      in if isNonBlankString appendQuitArgument
         then (if appendQuitArgument \<noteq> Some ''--append-quit''
               then (\<lparr>filePath = None, shouldAppendQuit = None\<rparr>,
                     [MessengerWarn (''Unable to validate arguments: ''
                        @ quoted (case appendQuitArgument of Some a \<Rightarrow> a | None \<Rightarrow> [])
                        @ ''. '' @ recordCommandFormat)])
               else (\<lparr>filePath = index recordArgsList 0, shouldAppendQuit = Some True\<rparr>, []))
         else (\<lparr>filePath = index recordArgsList 0, shouldAppendQuit = Some False\<rparr>, []))"

text \<open>
  The file system: the JSON document each path holds, and the paths that cannot be
  written (\<^verbatim>\<open>fs.outputJSONSync\<close> of the library fs-extra throws there, and replaces the
  file's content otherwise).
\<close>

record filesystem =
  files :: "string \<Rightarrow> json option"
  writable :: "string \<Rightarrow> bool"

definition outputJSONSync :: "filesystem \<Rightarrow> string \<Rightarrow> json \<Rightarrow> string + filesystem" where
  "outputJSONSync fsys file_name doc =
     (if writable fsys file_name
      then Inr (fsys\<lparr>files := (files fsys)(file_name \<mapsto> doc)\<rparr>)
      else Inl (''EACCES: '' @ file_name))"

definition replayDocument :: "controller \<Rightarrow> string list \<Rightarrow> json" where
  "replayDocument c utterances =
     JObj [(''skillId'', JStr (p_skillId c)),
           (''locale'', JStr (p_locale c)),
           (''type'', JStr ''text''),
           (''userInput'', JArr (map JStr utterances))]"

definition createReplayFile ::
  "controller \<Rightarrow> string \<Rightarrow> string list \<Rightarrow> filesystem \<Rightarrow> string + filesystem" where
  "createReplayFile c filename utterances fsys =
     (if isNonBlankString (Some filename)
      then outputJSONSync fsys filename (replayDocument c utterances)
      else Inr fsys)"

text \<open>
  The handler that \<^verbatim>\<open>setupSpecialCommands\<close> registers for the record command: the file
  system after it, its messages, and the error handed to \<^verbatim>\<open>callback\<close> when the write threw.
  The controller is only read.
\<close>

record recorded =
  fs_after :: filesystem
  messages :: "event list"
  callback_error :: "string option"

definition recordCommand :: "controller \<Rightarrow> string \<Rightarrow> filesystem \<Rightarrow> recorded" where
  "recordCommand c recordArgs fsys =
     (let recordArgsList = split_space (trim recordArgs)
      in if \<not> isNonBlankString (Some recordArgs) \<or> length recordArgsList > 2
         then \<lparr>fs_after = fsys,
               messages = [MessengerWarn (''Incorrect format. '' @ RECORD_FORMAT)],
               callback_error = None\<rparr>
         else
           (let (v, warnings) = validateRecordCommandInput recordArgsList RECORD_FORMAT;
                appendQuit = (shouldAppendQuit v = Some True);
                utteranceCacheCopy =
                  (if appendQuit then utteranceCache c @ [''.quit''] else utteranceCache c)
            in case filePath v of
                 None \<Rightarrow> \<lparr>fs_after = fsys, messages = warnings, callback_error = None\<rparr>
               | Some path \<Rightarrow>
                   if path = [] then \<lparr>fs_after = fsys, messages = warnings, callback_error = None\<rparr>
                   else
                     (case createReplayFile c path utteranceCacheCopy fsys of
                        Inl replayFileCreationError \<Rightarrow>
                          \<lparr>fs_after = fsys, messages = warnings,
                           callback_error = Some replayFileCreationError\<rparr>
                      | Inr fsys' \<Rightarrow>
                          \<lparr>fs_after = fsys',
                           messages = warnings @
                             [MessengerInfo (''Created replay file at '' @ path @
                                (if appendQuit
                                 then '' (appended '' @ quoted ''.quit'' @ '' to list of utterances).''
                                 else []))],
                           callback_error = None\<rparr>)))"

text \<open>The userInput array of a replay document.\<close>

definition userInput :: "json \<Rightarrow> json list option" where
  "userInput doc = (case view_path [''userInput''] doc of Some (JArr us) \<Rightarrow> Some us | _ \<Rightarrow> None)"

section \<open>The config store AskStates\<close>

text \<open>
  An instance has an identity (\<open>as_ref\<close>, fresh at each allocation), the path it was
  opened with (\<^verbatim>\<open>_path\<close>) and the document read, if any. The module keeps one variable
  \<^verbatim>\<open>instance\<close>, and the number of objects allocated so far gives the next identity.
\<close>

record ask_states =
  as_ref :: nat
  as_path :: string
  as_content :: "json option"

record ask_module =
  instance_var :: "ask_states option"
  allocated :: nat

text \<open>
  Modelled from the spec: the constructor of the base class \<^verbatim>\<open>ConfigFile\<close>
  (\<^verbatim>\<open>../abstract-config-file\<close>), which \<^verbatim>\<open>super(filePath)\<close> runs on the new object. The store is
  file-backed and known by its file path: the constructor keeps the path it is given.
\<close>

definition ConfigFile :: "nat \<Rightarrow> string \<Rightarrow> ask_states" where
  "ConfigFile ref file_path = \<lparr>as_ref = ref, as_path = file_path, as_content = None\<rparr>"

text \<open>
  Modelled from the spec: \<^verbatim>\<open>read\<close> of the base class \<^verbatim>\<open>ConfigFile\<close>, the "file-backed
  persistence" of the store: it loads the document at the object's path, and throws when
  the disk has none there.
\<close>

definition read_file :: "(string \<Rightarrow> json option) \<Rightarrow> ask_states \<Rightarrow> string + ask_states" where
  "read_file disk this =
     (case disk (as_path this) of
        None \<Rightarrow> Inl (''cannot read '' @ as_path this)
      | Some doc \<Rightarrow> Inr (this\<lparr>as_content := Some doc\<rparr>))"

text \<open>The constructor past its first test: \<^verbatim>\<open>super(filePath); this.read(); instance = this\<close>.
  When \<^verbatim>\<open>read\<close> throws, the variable \<^verbatim>\<open>instance\<close> keeps its value.\<close>

definition construct_fresh ::
  "(string \<Rightarrow> json option) \<Rightarrow> string \<Rightarrow> ask_module \<Rightarrow> (string + ask_states) \<times> ask_module" where
  "construct_fresh disk file_path m =
     (let this = ConfigFile (allocated m) file_path;
          m1 = m\<lparr>allocated := Suc (allocated m)\<rparr>
      in case read_file disk this of
           Inl err \<Rightarrow> (Inl err, m1)
         | Inr this' \<Rightarrow> (Inr this', m1\<lparr>instance_var := Some this'\<rparr>))"

text \<open>\<^verbatim>\<open>new AskStates(filePath)\<close>: the value of the expression (or the error thrown) and the
  module afterwards. The first test is \<^verbatim>\<open>instance && instance._path === filePath\<close>.\<close>

definition AskStates ::
  "(string \<Rightarrow> json option) \<Rightarrow> string \<Rightarrow> ask_module \<Rightarrow> (string + ask_states) \<times> ask_module" where
  "AskStates disk file_path m =
     (case instance_var m of
        Some i \<Rightarrow> if as_path i = file_path then (Inr i, m) else construct_fresh disk file_path m
      | None \<Rightarrow> construct_fresh disk file_path m)"

definition getInstance :: "ask_module \<Rightarrow> ask_states option" where
  "getInstance m = instance_var m"

definition dispose :: "ask_module \<Rightarrow> ask_module" where
  "dispose m = m\<lparr>instance_var := None\<rparr>"

text \<open>A sequence of constructions, one path after the other: the value of each.\<close>

fun constructions ::
  "(string \<Rightarrow> json option) \<Rightarrow> string list \<Rightarrow> ask_module \<Rightarrow> (string + ask_states) list \<times> ask_module" where
  "constructions disk [] m = ([], m)"
| "constructions disk (p # ps) m =
     (let (r, m1) = AskStates disk p m;
          (rs, m2) = constructions disk ps m1
      in (r # rs, m2))"

section \<open>The metric client\<close>

text \<open>The argument of \<^verbatim>\<open>end\<close> and \<^verbatim>\<open>sendData\<close>: an \<^verbatim>\<open>Error\<close> object (its message), a string or
  \<^verbatim>\<open>null\<close>. Dates are numbers read from a clock.\<close>

datatype end_error =
    EError string
  | EString string
  | ENull

record metric_action =
  ma_endTime :: "nat option"
  ma_failureMessage :: string
  ma_name :: string
  ma_result :: "string option"
  ma_startTime :: nat
  ma_type :: string
  ma_id :: string
  ma_ended :: bool

definition MetricAction :: "string \<Rightarrow> string \<Rightarrow> nat \<Rightarrow> string \<Rightarrow> metric_action" where
  "MetricAction name_arg type_arg now uuid =
     \<lparr>ma_endTime = None, ma_failureMessage = [], ma_name = name_arg, ma_result = None,
      ma_startTime = now, ma_type = type_arg, ma_id = uuid, ma_ended = False\<rparr>"

text \<open>\<^verbatim>\<open>MetricAction.end(error)\<close>, at the time \<open>now\<close>.\<close>

definition action_end :: "end_error \<Rightarrow> nat \<Rightarrow> metric_action \<Rightarrow> metric_action" where
  "action_end error now a =
     (if ma_ended a then a
      else
        (let errorMessage = (case error of EError m \<Rightarrow> Some m | EString s \<Rightarrow> Some s | ENull \<Rightarrow> None)
         in a\<lparr>ma_result := Some (if truthy_string errorMessage then ''Failure'' else ''Success''),
              ma_failureMessage := (case errorMessage of Some s \<Rightarrow> s | None \<Rightarrow> []),
              ma_endTime := Some now,
              ma_ended := True\<rparr>))"

record metric_client =
  enabled :: bool
  postRetries :: int
  actions :: "metric_action list"
  timeUploaded :: "nat option"

text \<open>The constructor; whether metrics are enabled is read from the environment.\<close>

definition MetricClient :: "bool \<Rightarrow> metric_client" where
  "MetricClient is_enabled =
     \<lparr>enabled = is_enabled, postRetries = 3, actions = [], timeUploaded = None\<rparr>"

definition startAction ::
  "string \<Rightarrow> string \<Rightarrow> nat \<Rightarrow> string \<Rightarrow> metric_client \<Rightarrow> metric_action \<times> metric_client" where
  "startAction name_arg type_arg now uuid mc =
     (let action = MetricAction name_arg type_arg now uuid
      in (action, mc\<lparr>actions := actions mc @ [action]\<rparr>))"

datatype 'a promise =
    Resolved 'a
  | Rejected string

text \<open>
  \<^verbatim>\<open>_retry(retries, fn)\<close>. The POSTs are numbered as they are made; \<open>post k\<close> is the outcome
  of POST number \<open>k\<close>: \<open>None\<close> when it succeeds, the error that rejects it otherwise. The
  result is the promise's outcome and the number of POSTs made so far.
\<close>

function retry :: "(nat \<Rightarrow> string option) \<Rightarrow> int \<Rightarrow> nat \<Rightarrow> unit promise \<times> nat" where
  "retry post retries made =
     (case post made of
        None \<Rightarrow> (Resolved (), Suc made)
      | Some err \<Rightarrow>
          if retries > 1 then retry post (retries - 1) (Suc made)
          else (Rejected err, Suc made))"
  by pat_completeness auto
termination
  by (relation "measure (\<lambda>(post, retries, made). nat retries)") auto

definition upload ::
  "(nat \<Rightarrow> string option) \<Rightarrow> nat \<Rightarrow> metric_client \<Rightarrow> (unit promise \<times> nat) \<times> metric_client" where
  "upload post now mc = (retry post (postRetries mc) 0, mc\<lparr>timeUploaded := Some now\<rparr>)"

text \<open>\<^verbatim>\<open>sendData(error)\<close>: the promise returned (it carries \<^verbatim>\<open>success\<close>), the number of POSTs
  made, and the client afterwards.\<close>

definition sendData ::
  "end_error \<Rightarrow> nat \<Rightarrow> (nat \<Rightarrow> string option) \<Rightarrow> metric_client
     \<Rightarrow> bool promise \<times> nat \<times> metric_client" where
  "sendData error now post mc =
     (if \<not> enabled mc then (Resolved True, 0, mc\<lparr>actions := []\<rparr>)
      else
        (let mc1 = mc\<lparr>actions := map (action_end error now) (actions mc)\<rparr>;
             ((outcome, made), mc2) = upload post now mc1
         in case outcome of
              Resolved u \<Rightarrow> (Resolved True, made, mc2\<lparr>actions := []\<rparr>)
            | Rejected err \<Rightarrow> (Resolved False, made, mc2)))"

text \<open>The requests a list of events hands to the base class.\<close>

fun start_requests :: "event list \<Rightarrow> (string \<times> bool) list" where
  "start_requests [] = []"
| "start_requests (SuperStartSkillSimulation u ns # es) = (u, ns) # start_requests es"
| "start_requests (_ # es) = start_requests es"

fun poll_requests :: "event list \<Rightarrow> json option list" where
  "poll_requests [] = []"
| "poll_requests (SuperGetSkillSimulationResult i # es) = i # poll_requests es"
| "poll_requests (_ # es) = poll_requests es"

section \<open>Sample inputs\<close>

text \<open>Sample collaborators: a parser that reads three fields of the body, and base-class
  methods that answer every request the same way.\<close>

definition sample_env ::
  "string option \<times> response option \<Rightarrow> string option \<times> response option \<Rightarrow> collaborators" where
  "sample_env start poll =
     \<lparr>super_startSkillSimulation = (\<lambda>u ns. start),
      super_getSkillSimulationResult = (\<lambda>i. poll),
      shouldEndSession = (\<lambda>b. view_path [''shouldEndSession''] b = Some (JBool True)),
      getCaption = (\<lambda>b. case view_path [''caption''] b of Some (JStr s) \<Rightarrow> [s] | _ \<Rightarrow> []),
      getErrorMessage = (\<lambda>b. case view_path [''error'', ''message''] b of
                                  Some (JStr m) \<Rightarrow> Some m | _ \<Rightarrow> None)\<rparr>"

definition sample_controller :: controller where
  "sample_controller =
     \<lparr>p_skillId = ''amzn1.ask.skill.1'', p_locale = ''en-US'', newSession = True,
      utteranceCache = []\<rparr>"

definition ok_start :: response where
  "ok_start = \<lparr>statusCode = 200, body = JObj [(''id'', JStr ''sim-1'')]\<rparr>"

definition remote_error_start :: response where
  "remote_error_start =
     \<lparr>statusCode = 400, body = JObj [(''error'', JObj [(''message'', JStr ''bad request'')])]\<rparr>"

definition ok_poll :: response where
  "ok_poll = \<lparr>statusCode = 200, body = JObj [(''caption'', JStr ''Hi'')]\<rparr>"

definition end_poll :: response where
  "end_poll =
     \<lparr>statusCode = 200,
      body = JObj [(''caption'', JStr ''Bye''), (''shouldEndSession'', JBool True)]\<rparr>"

definition sample_configuration :: configuration where
  "sample_configuration =
     \<lparr>cfg_skillId = ''amzn1.ask.skill.1'', cfg_locale = ''en-US'',
      cfg_newSession = Some (JBool False)\<rparr>"

definition sample_filesystem :: filesystem where
  "sample_filesystem =
     \<lparr>files = [''replay.json'' \<mapsto> JStr ''an older file''], writable = (\<lambda>p. True)\<rparr>"

definition sample_disk :: "string \<Rightarrow> json option" where
  "sample_disk = [''a.json'' \<mapsto> JObj [], ''b.json'' \<mapsto> JObj []]"

text \<open>The module as it is loaded: \<^verbatim>\<open>let instance = null\<close>.\<close>

definition initial_module :: ask_module where
  "initial_module = \<lparr>instance_var = None, allocated = 0\<rparr>"

section \<open>Auxiliary facts\<close>

lemmas turn_defs = evaluateUtterance_def startSkillSimulation_def pollAndReport_def
  getSkillSimulationResult_def clearSession_def Let_def

lemma pushed_captions: "pushed (captionMessages xs @ es) = pushed es"
  by (induction xs) (simp_all add: captionMessages_def)

lemma replay_captions: "replay_cache (captionMessages xs @ es) h = replay_cache es h"
  by (induction xs) (simp_all add: captionMessages_def)

lemma start_requests_captions: "start_requests (captionMessages xs @ es) = start_requests es"
  by (induction xs) (simp_all add: captionMessages_def)

lemma poll_requests_captions: "poll_requests (captionMessages xs @ es) = poll_requests es"
  by (induction xs) (simp_all add: captionMessages_def)

lemma ClearSession_captions: "ClearSession \<notin> set (captionMessages xs)"
  by (auto simp: captionMessages_def)

lemma trim_head: 
  assumes "trim s \<noteq> []" shows "\<not> isWhiteSpace (hd (trim s))"
proof -
  define t where "t = dropWhile isWhiteSpace s"
  define u where "u = rev (dropWhile isWhiteSpace (rev t))"
  have u: "u = trim s" by (simp add: u_def t_def trim_def)
  have "rev (takeWhile isWhiteSpace (rev t) @ dropWhile isWhiteSpace (rev t)) = t"
    by (simp only: takeWhile_dropWhile_id rev_rev_ident)
  then have split: "t = u @ rev (takeWhile isWhiteSpace (rev t))"
    by (simp only: rev_append u_def)
  from assms u have "u \<noteq> []" by simp
  with split have "hd t = hd u" by (metis hd_append2)
  moreover from split \<open>u \<noteq> []\<close> have "t \<noteq> []" by auto
  then have "\<not> isWhiteSpace (hd t)" unfolding t_def by (rule hd_dropWhile)
  ultimately show ?thesis using u by simp
qed

lemma split_space_head:
  assumes "s \<noteq> []" and "hd s \<noteq> CHR '' ''" and "split_space s = p # ps"
  shows "p \<noteq> [] \<and> hd p = hd s"
  using assms by (cases s) (auto split: list.splits)

lemma nonblank_by_head:
  assumes "p \<noteq> []" and "\<not> isWhiteSpace (hd p)"
  shows "trim p \<noteq> []"
proof -
  from assms have "dropWhile isWhiteSpace p = p" by (cases p) simp_all
  moreover from assms have "hd p \<in> set (rev p)" by simp
  with assms(2) have "dropWhile isWhiteSpace (rev p) \<noteq> []"
    by (metis dropWhile_eq_Nil_conv)
  ultimately show ?thesis by (simp add: trim_def)
qed

lemma first_argument_nonblank:
  assumes "trim s \<noteq> []" and "split_space (trim s) = p # ps"
  shows "isNonBlankString (Some p)"
proof -
  have ws: "\<not> isWhiteSpace (hd (trim s))" using assms(1) by (rule trim_head)
  then have "hd (trim s) \<noteq> CHR '' ''" by (auto simp: isWhiteSpace_def)
  with assms have "p \<noteq> [] \<and> hd p = hd (trim s)" by (intro split_space_head)
  with ws have "trim p \<noteq> []" by (intro nonblank_by_head) simp_all
  then show ?thesis by (simp add: isNonBlankString_def)
qed

lemma append_quit_nonblank: "isNonBlankString (Some ''--append-quit'')"
  by (simp add: isNonBlankString_def trim_def isWhiteSpace_def)

lemma createReplayFile_blank:
  "\<not> isNonBlankString (Some p) \<Longrightarrow> createReplayFile c p us fsys = Inr fsys"
  by (simp add: createReplayFile_def)

lemma createReplayFile_writes:
  "isNonBlankString (Some p) \<Longrightarrow> writable fsys p \<Longrightarrow>
   createReplayFile c p us fsys = Inr (fsys\<lparr>files := (files fsys)(p \<mapsto> replayDocument c us)\<rparr>)"
  by (simp add: createReplayFile_def outputJSONSync_def)

lemma userInput_replayDocument: "userInput (replayDocument c us) = Some (map JStr us)"
  by (simp add: userInput_def replayDocument_def)

lemma recordCommand_plain:
  assumes "isNonBlankString (Some args)" and "split_space (trim args) = [p]" and "writable fsys p"
  shows "fs_after (recordCommand c args fsys) =
         fsys\<lparr>files := (files fsys)(p \<mapsto> replayDocument c (utteranceCache c))\<rparr>"
proof -
  from assms(1) have nb: "trim args \<noteq> []" by (simp add: isNonBlankString_def)
  from nb assms(2) have p: "isNonBlankString (Some p)" by (rule first_argument_nonblank)
  then have "p \<noteq> []" by (auto simp: isNonBlankString_def trim_def)
  with assms p show ?thesis
    by (simp add: recordCommand_def validateRecordCommandInput_def index_def
        isNonBlankString_def[of None] createReplayFile_writes)
qed

lemma recordCommand_append_quit:
  assumes "isNonBlankString (Some args)" and "split_space (trim args) = [p, ''--append-quit'']"
    and "writable fsys p"
  shows "fs_after (recordCommand c args fsys) =
         fsys\<lparr>files := (files fsys)(p \<mapsto> replayDocument c (utteranceCache c @ [''.quit'']))\<rparr>"
proof -
  from assms(1) have nb: "trim args \<noteq> []" by (simp add: isNonBlankString_def)
  from nb assms(2) have p: "isNonBlankString (Some p)" by (rule first_argument_nonblank)
  then have "p \<noteq> []" by (auto simp: isNonBlankString_def trim_def)
  with assms p show ?thesis
    by (simp add: recordCommand_def validateRecordCommandInput_def index_def
        append_quit_nonblank createReplayFile_writes)
qed

lemma retry_count:
  "made < snd (retry post retries made) \<and>
   snd (retry post retries made) \<le> made + nat (max 1 retries)"
proof (induction post retries made rule: retry.induct)
  case (1 post retries made)
  show ?case
  proof (cases "post made")
    case None
    then show ?thesis by (simp add: retry.simps[of post retries made])
  next
    case (Some err)
    show ?thesis
    proof (cases "retries > 1")
      case True
      from 1[OF Some True] Some True show ?thesis
        by (simp add: retry.simps[of post retries made]) linarith
    next
      case False
      with Some show ?thesis by (simp add: retry.simps[of post retries made])
    qed
  qed
qed

declare retry.simps [simp del]

lemma retry_three:
  "fst (retry post 3 0) = Resolved () \<longleftrightarrow> (\<exists>k<3. post k = None)"
proof -
  have three: "(\<exists>k<3. post k = None) \<longleftrightarrow>
      post 0 = None \<or> post (Suc 0) = None \<or> post (Suc (Suc 0)) = None"
    by (auto simp: less_Suc_eq numeral_3_eq_3)
  show ?thesis unfolding three
    by (subst retry.simps, subst retry.simps, subst retry.simps) (auto split: option.splits)
qed

lemma sendData_outcome:
  "fst (sendData error now post mc) =
     Resolved (\<not> enabled mc \<or> fst (retry post (postRetries mc) 0) = Resolved ())"
  by (cases "retry post (postRetries mc) 0"; cases "fst (retry post (postRetries mc) 0)")
     (auto simp: sendData_def upload_def Let_def)

lemma sendData_posts:
  "fst (snd (sendData error now post mc)) =
     (if enabled mc then snd (retry post (postRetries mc) 0) else 0)"
  by (cases "retry post (postRetries mc) 0"; cases "fst (retry post (postRetries mc) 0)")
     (auto simp: sendData_def upload_def Let_def)

lemma AskStates_current:
  "instance_var m = Some i \<Longrightarrow> as_path i = p \<Longrightarrow> AskStates disk p m = (Inr i, m)"
  by (simp add: AskStates_def)

lemmas construct_defs = AskStates_def construct_fresh_def ConfigFile_def read_file_def Let_def

lemma AskStates_result:
  "AskStates disk p m = (Inr i, m') \<Longrightarrow> instance_var m' = Some i \<and> as_path i = p"
  by (auto simp: construct_defs split: option.splits if_splits)

lemma AskStates_other:
  "instance_var m = Some i \<Longrightarrow> as_path i \<noteq> p \<Longrightarrow> disk p = Some doc \<Longrightarrow>
   AskStates disk p m =
     (Inr \<lparr>as_ref = allocated m, as_path = p, as_content = Some doc\<rparr>,
      \<lparr>instance_var = Some \<lparr>as_ref = allocated m, as_path = p, as_content = Some doc\<rparr>,
       allocated = Suc (allocated m)\<rparr>)"
  by (simp add: construct_defs)

lemmas sample_defs = sample_env_def sample_controller_def ok_start_def remote_error_start_def
  ok_poll_def end_poll_def

lemma replay_turn:
  "utteranceCache (ctrl (evaluateUtterance env input c)) =
     replay_cache (events (evaluateUtterance env input c)) (utteranceCache c)"
  by (auto simp: turn_defs replay_captions split: prod.splits option.splits poll_result.splits)

section \<open>Claims about a turn\<close>

text \<open>
  Claim C1, as amended. For every input that is empty or only white space, \<open>evaluateUtterance\<close>
  validates nothing: it hands exactly one start request to the base class, with the empty
  string as utterance and the current \<open>newSession\<close>. The empty utterance is pushed on the
  history exactly when that call yields a response. When it yields none, the controller is
  unchanged, and when it yields an error and no response, the error reported is that error
  of the transport.
\<close>
theorem evaluateUtterance_blank_input:
  assumes "trim input = []"
  shows "start_requests (events (evaluateUtterance env input c)) = [([], newSession c)] \<and>
         pushed (events (evaluateUtterance env input c)) =
           (case snd (super_startSkillSimulation env [] (newSession c)) of
              None \<Rightarrow> [] | Some r \<Rightarrow> [[]]) \<and>
         (snd (super_startSkillSimulation env [] (newSession c)) = None \<longrightarrow>
            ctrl (evaluateUtterance env input c) = c) \<and>
         (\<forall>e. super_startSkillSimulation env [] (newSession c) = (Some e, None) \<longrightarrow>
            events (evaluateUtterance env input c) =
              [StartProgressSpinner ''Sending simulation request to Alexa...'',
               SuperStartSkillSimulation [] (newSession c),
               TerminateProgressSpinner, MessengerError (LError e), ReplCallback])"
  using assms
  by (auto simp: turn_defs pushed_captions start_requests_captions
      split: prod.splits option.splits poll_result.splits)

theorem evaluateUtterance_blank_input_witness:
  "trim ''  '' = [] \<and>
   start_requests (events (evaluateUtterance (sample_env (Some ''ECONNRESET'', None) (None, None))
      ''  '' sample_controller)) = [([], True)] \<and>
   pushed (events (evaluateUtterance (sample_env (Some ''ECONNRESET'', None) (None, None))
      ''  '' sample_controller)) = [] \<and>
   ctrl (evaluateUtterance (sample_env (Some ''ECONNRESET'', None) (None, None))
      ''  '' sample_controller) = sample_controller \<and>
   events (evaluateUtterance (sample_env (Some ''ECONNRESET'', None) (None, None))
      ''  '' sample_controller) =
     [StartProgressSpinner ''Sending simulation request to Alexa...'',
      SuperStartSkillSimulation [] True,
      TerminateProgressSpinner, MessengerError (LError ''ECONNRESET''), ReplCallback]"
proof -
  have blank: "trim ''  '' = []" by (simp add: trim_def isWhiteSpace_def)
  show ?thesis
    using blank evaluateUtterance_blank_input
      [OF blank, of "sample_env (Some ''ECONNRESET'', None) (None, None)" sample_controller]
    by (simp add: sample_env_def sample_controller_def)
qed

text \<open>
  The claim C1 as stated fails: for the input of three spaces, the empty utterance is handed to the
  base class as a start request, and with a response to it the history gains the empty
  utterance. No validation error exists anywhere in the turn.
\<close>
theorem evaluateUtterance_blank_input_counterexample:
  "trim ''   '' = [] \<and>
   start_requests (events (evaluateUtterance (sample_env (None, Some ok_start) (None, Some ok_poll))
      ''   '' sample_controller)) = [([], True)] \<and>
   utteranceCache sample_controller = [] \<and>
   utteranceCache (ctrl (evaluateUtterance (sample_env (None, Some ok_start) (None, Some ok_poll))
      ''   '' sample_controller)) = [[]]"
  by (simp add: turn_defs sample_defs trim_def isWhiteSpace_def truthy_string_def captionMessages_def)

text \<open>
  Claim C2. During a turn exactly one entry, the trimmed utterance, is pushed on the utterance
  history when the start call produced a response (whatever its status code), and none when
  it produced no response. This holds for every input, so for every non-empty trimmed
  utterance. The history after the turn is the prior history followed by what was pushed,
  unless the session was cleared during the turn.
\<close>
theorem evaluateUtterance_appends_once:
  "pushed (events (evaluateUtterance env input c)) =
     (case snd (super_startSkillSimulation env (trim input) (newSession c)) of
        None \<Rightarrow> [] | Some r \<Rightarrow> [trim input]) \<and>
   utteranceCache (ctrl (evaluateUtterance env input c)) =
     (if ClearSession \<in> set (events (evaluateUtterance env input c)) then []
      else utteranceCache c @ pushed (events (evaluateUtterance env input c)))"
  by (auto simp: turn_defs pushed_captions ClearSession_captions
      split: prod.splits option.splits poll_result.splits)

theorem evaluateUtterance_appends_once_witness:
  "snd (super_startSkillSimulation (sample_env (None, Some remote_error_start) (None, None))
      (trim '' hello '') True) = Some remote_error_start \<and>
   pushed (events (evaluateUtterance (sample_env (None, Some remote_error_start) (None, None))
      '' hello '' sample_controller)) = [''hello''] \<and>
   snd (super_startSkillSimulation (sample_env (Some ''ECONNRESET'', None) (None, None))
      (trim '' hello '') True) = None \<and>
   pushed (events (evaluateUtterance (sample_env (Some ''ECONNRESET'', None) (None, None))
      '' hello '' sample_controller)) = []"
  using evaluateUtterance_appends_once
      [of "sample_env (None, Some remote_error_start) (None, None)" "'' hello ''" sample_controller]
    evaluateUtterance_appends_once
      [of "sample_env (Some ''ECONNRESET'', None) (None, None)" "'' hello ''" sample_controller]
  by (simp add: sample_env_def sample_controller_def trim_def isWhiteSpace_def)

text \<open>
  Claim C3, as amended. For every turn whose start call returns a response with a status code
  of at least 300, the controller takes the error branch without polling: it stops the
  spinner, reports one error and calls back. The trimmed utterance is appended to the
  history once, and \<open>newSession\<close> is unchanged.
\<close>
theorem evaluateUtterance_remote_error:
  assumes "snd (super_startSkillSimulation env (trim input) (newSession c)) = Some r"
    and "statusCode r \<ge> 300"
  shows "poll_requests (events (evaluateUtterance env input c)) = [] \<and>
         utteranceCache (ctrl (evaluateUtterance env input c)) = utteranceCache c @ [trim input] \<and>
         newSession (ctrl (evaluateUtterance env input c)) = newSession c \<and>
         \<not> thrown (evaluateUtterance env input c) \<and>
         (\<exists>m. events (evaluateUtterance env input c) =
            [StartProgressSpinner ''Sending simulation request to Alexa...'',
             SuperStartSkillSimulation (trim input) (newSession c), CachePush (trim input),
             TerminateProgressSpinner, MessengerError m, ReplCallback])"
  using assms
  by (auto simp: turn_defs split: prod.splits option.splits)

theorem evaluateUtterance_remote_error_witness:
  "snd (super_startSkillSimulation (sample_env (None, Some remote_error_start) (None, Some ok_poll))
      (trim ''hello'') (newSession sample_controller)) = Some remote_error_start \<and>
   statusCode remote_error_start \<ge> 300 \<and>
   poll_requests (events (evaluateUtterance
      (sample_env (None, Some remote_error_start) (None, Some ok_poll)) ''hello'' sample_controller)) = [] \<and>
   utteranceCache (ctrl (evaluateUtterance
      (sample_env (None, Some remote_error_start) (None, Some ok_poll)) ''hello'' sample_controller))
     = utteranceCache sample_controller @ [''hello''] \<and>
   newSession (ctrl (evaluateUtterance
      (sample_env (None, Some remote_error_start) (None, Some ok_poll)) ''hello'' sample_controller))
     = newSession sample_controller"
proof -
  have start: "snd (super_startSkillSimulation
      (sample_env (None, Some remote_error_start) (None, Some ok_poll))
      (trim ''hello'') (newSession sample_controller)) = Some remote_error_start"
    by (simp add: sample_env_def)
  have status: "statusCode remote_error_start \<ge> 300"
    by (simp add: remote_error_start_def)
  have hello: "trim ''hello'' = ''hello''"
    by (simp add: trim_def isWhiteSpace_def)
  show ?thesis
    using start status hello evaluateUtterance_remote_error [OF start status]
    by simp
qed

text \<open>
  The claim C3 as stated fails: a start response with status code 400 ends the turn without a
  poll, and the history has grown by one.
\<close>
theorem evaluateUtterance_remote_error_counterexample:
  "snd (super_startSkillSimulation (sample_env (None, Some remote_error_start) (None, Some ok_poll))
      (trim ''hello'') (newSession sample_controller)) = Some remote_error_start \<and>
   statusCode remote_error_start \<ge> 300 \<and>
   poll_requests (events (evaluateUtterance
      (sample_env (None, Some remote_error_start) (None, Some ok_poll)) ''hello'' sample_controller)) = [] \<and>
   length (utteranceCache sample_controller) = 0 \<and>
   length (utteranceCache (ctrl (evaluateUtterance
      (sample_env (None, Some remote_error_start) (None, Some ok_poll)) ''hello'' sample_controller))) = 1"
  by (simp add: turn_defs sample_defs trim_def isWhiteSpace_def)

text \<open>
  Claim C4. For every turn that reaches a terminal poll response which carries no service-side
  error and signals the end of the session, \<open>newSession\<close> is true and the history is empty
  after the turn, whatever the state before.
\<close>
theorem session_reset:
  assumes "super_startSkillSimulation env (trim input) (newSession c) = (None, Some r)"
    and "statusCode r < 300"
    and "super_getSkillSimulationResult env (view_path [''id''] (body r)) = (None, Some g)"
    and "\<not> truthy_string (getErrorMessage env (body g))"
    and "shouldEndSession env (body g)"
  shows "newSession (ctrl (evaluateUtterance env input c)) = True \<and>
         utteranceCache (ctrl (evaluateUtterance env input c)) = []"
  using assms by (simp add: turn_defs)

theorem session_reset_witness:
  "super_startSkillSimulation (sample_env (None, Some ok_start) (None, Some end_poll))
      (trim ''stop'') False = (None, Some ok_start) \<and>
   statusCode ok_start < 300 \<and>
   super_getSkillSimulationResult (sample_env (None, Some ok_start) (None, Some end_poll))
      (view_path [''id''] (body ok_start)) = (None, Some end_poll) \<and>
   \<not> truthy_string (getErrorMessage (sample_env (None, Some ok_start) (None, Some end_poll))
      (body end_poll)) \<and>
   shouldEndSession (sample_env (None, Some ok_start) (None, Some end_poll)) (body end_poll) \<and>
   newSession (ctrl (evaluateUtterance (sample_env (None, Some ok_start) (None, Some end_poll))
      ''stop'' (sample_controller\<lparr>newSession := False, utteranceCache := [''open my skill'']\<rparr>)))
     = True \<and>
   utteranceCache (ctrl (evaluateUtterance (sample_env (None, Some ok_start) (None, Some end_poll))
      ''stop'' (sample_controller\<lparr>newSession := False, utteranceCache := [''open my skill'']\<rparr>)))
     = []"
  using session_reset [of "sample_env (None, Some ok_start) (None, Some end_poll)" "''stop''"
      "sample_controller\<lparr>newSession := False, utteranceCache := [''open my skill'']\<rparr>"
      ok_start end_poll]
  by (simp add: sample_defs truthy_string_def)

text \<open>
  Claim C5. For every turn that reaches a terminal poll response which carries no service-side
  error and does not signal the end of the session, \<open>newSession\<close> is false after the turn and
  the history is the prior history with the trimmed utterance appended.
\<close>
theorem continuation:
  assumes "super_startSkillSimulation env (trim input) (newSession c) = (None, Some r)"
    and "statusCode r < 300"
    and "super_getSkillSimulationResult env (view_path [''id''] (body r)) = (None, Some g)"
    and "\<not> truthy_string (getErrorMessage env (body g))"
    and "\<not> shouldEndSession env (body g)"
  shows "newSession (ctrl (evaluateUtterance env input c)) = False \<and>
         utteranceCache (ctrl (evaluateUtterance env input c)) = utteranceCache c @ [trim input]"
  using assms by (simp add: turn_defs)

theorem continuation_witness:
  "super_startSkillSimulation (sample_env (None, Some ok_start) (None, Some ok_poll))
      (trim '' open my skill '') True = (None, Some ok_start) \<and>
   statusCode ok_start < 300 \<and>
   super_getSkillSimulationResult (sample_env (None, Some ok_start) (None, Some ok_poll))
      (view_path [''id''] (body ok_start)) = (None, Some ok_poll) \<and>
   \<not> truthy_string (getErrorMessage (sample_env (None, Some ok_start) (None, Some ok_poll))
      (body ok_poll)) \<and>
   \<not> shouldEndSession (sample_env (None, Some ok_start) (None, Some ok_poll)) (body ok_poll) \<and>
   newSession (ctrl (evaluateUtterance (sample_env (None, Some ok_start) (None, Some ok_poll))
      '' open my skill '' (sample_controller\<lparr>utteranceCache := [''hello'']\<rparr>))) = False \<and>
   utteranceCache (ctrl (evaluateUtterance (sample_env (None, Some ok_start) (None, Some ok_poll))
      '' open my skill '' (sample_controller\<lparr>utteranceCache := [''hello'']\<rparr>)))
     = [''hello'', ''open my skill'']"
  using continuation [of "sample_env (None, Some ok_start) (None, Some ok_poll)"
      "'' open my skill ''" "sample_controller\<lparr>utteranceCache := [''hello'']\<rparr>" ok_start ok_poll]
  by (simp add: sample_defs truthy_string_def trim_def isWhiteSpace_def)

text \<open>
  Claim C6, as amended. Immediately after construction \<open>newSession\<close> is true unless the
  configuration's \<^verbatim>\<open>newSession\<close> is exactly \<^verbatim>\<open>false\<close>, and then it is false; the history is
  empty. \<open>clearSession\<close> sets \<open>newSession\<close> to true, and a turn that starts with \<open>newSession\<close>
  false ends with it true only when it cleared the session.
\<close>
theorem DialogController_newSession:
  "newSession (DialogController cfg) = (cfg_newSession cfg \<noteq> Some (JBool False)) \<and>
   utteranceCache (DialogController cfg) = [] \<and>
   newSession (clearSession c') = True \<and>
   (\<not> newSession c \<and> newSession (ctrl (evaluateUtterance env input c)) \<longrightarrow>
      ClearSession \<in> set (events (evaluateUtterance env input c)))"
proof -
  have "ClearSession \<in> set (events (evaluateUtterance env input c))"
    if "\<not> newSession c" and "newSession (ctrl (evaluateUtterance env input c))"
    using that
    by (cases "newSession c")
       (auto simp: turn_defs split: prod.splits option.splits poll_result.splits if_splits)
  then show ?thesis
    by (simp add: DialogController_def SkillSimulationController_def clearSession_def)
qed

theorem DialogController_newSession_witness:
  "newSession (DialogController \<lparr>cfg_skillId = ''amzn1.ask.skill.1'', cfg_locale = ''en-US'',
      cfg_newSession = None\<rparr>) = True \<and>
   utteranceCache (DialogController \<lparr>cfg_skillId = ''amzn1.ask.skill.1'', cfg_locale = ''en-US'',
      cfg_newSession = None\<rparr>) = [] \<and>
   \<not> newSession (DialogController sample_configuration) \<and>
   newSession (ctrl (evaluateUtterance (sample_env (None, Some ok_start) (None, Some end_poll))
      ''stop'' (DialogController sample_configuration))) \<and>
   ClearSession \<in> set (events (evaluateUtterance (sample_env (None, Some ok_start) (None, Some end_poll))
      ''stop'' (DialogController sample_configuration)))"
proof -
  have ended: "newSession (ctrl (evaluateUtterance (sample_env (None, Some ok_start) (None, Some end_poll))
      ''stop'' (DialogController sample_configuration)))"
    by (simp add: turn_defs sample_defs truthy_string_def)
  have started: "\<not> newSession (DialogController sample_configuration)"
    by (simp add: DialogController_def SkillSimulationController_def sample_configuration_def)
  show ?thesis
    using ended started
      DialogController_newSession [where cfg = "\<lparr>cfg_skillId = ''amzn1.ask.skill.1'',
        cfg_locale = ''en-US'', cfg_newSession = None\<rparr>"
        and c = "DialogController sample_configuration"
        and env = "sample_env (None, Some ok_start) (None, Some end_poll)" and input = "''stop''"]
    by simp
qed

text \<open>
  The claim C6 as stated fails: a configuration whose \<^verbatim>\<open>newSession\<close> is \<^verbatim>\<open>false\<close> gives a controller
  whose \<open>newSession\<close> is false.
\<close>
theorem DialogController_newSession_counterexample:
  "cfg_newSession sample_configuration = Some (JBool False) \<and>
   newSession (DialogController sample_configuration) = False"
  by (simp add: sample_configuration_def DialogController_def SkillSimulationController_def)

section \<open>Claims about the replay file\<close>

text \<open>
  Claim C7. \<open>createReplayFile\<close> leaves the file system as it is when the file path is blank.
  For a non-blank path that can be written, it stores the replay document (skillId, locale,
  type "text", userInput) at the path, whatever the file held, and a second call with the
  same path and utterances leaves exactly that. The userInput of the document has the
  length of the list of utterances; written by the record command, that is the length of
  the history, and one more with \<^verbatim>\<open>--append-quit\<close>, which adds ".quit".
\<close>
theorem createReplayFile_contract:
  "(\<not> isNonBlankString (Some p) \<longrightarrow> createReplayFile c p us fsys = Inr fsys) \<and>
   (isNonBlankString (Some p) \<and> writable fsys p \<longrightarrow>
      createReplayFile c p us fsys =
        Inr (fsys\<lparr>files := (files fsys)(p \<mapsto> replayDocument c us)\<rparr>) \<and>
      createReplayFile c p us (fsys\<lparr>files := (files fsys)(p \<mapsto> replayDocument c us)\<rparr>) =
        Inr (fsys\<lparr>files := (files fsys)(p \<mapsto> replayDocument c us)\<rparr>)) \<and>
   replayDocument c us =
     JObj [(''skillId'', JStr (p_skillId c)), (''locale'', JStr (p_locale c)),
           (''type'', JStr ''text''), (''userInput'', JArr (map JStr us))] \<and>
   map_option length (userInput (replayDocument c us)) = Some (length us) \<and>
   (isNonBlankString (Some args) \<and> split_space (trim args) = [p] \<and> writable fsys p \<longrightarrow>
      files (fs_after (recordCommand c args fsys)) p =
        Some (replayDocument c (utteranceCache c)) \<and>
      map_option length (userInput (replayDocument c (utteranceCache c))) =
        Some (length (utteranceCache c))) \<and>
   (isNonBlankString (Some args) \<and> split_space (trim args) = [p, ''--append-quit'']
      \<and> writable fsys p \<longrightarrow>
      files (fs_after (recordCommand c args fsys)) p =
        Some (replayDocument c (utteranceCache c @ [''.quit''])) \<and>
      map_option length (userInput (replayDocument c (utteranceCache c @ [''.quit'']))) =
        Some (length (utteranceCache c) + 1))"
proof -
  have blank: "\<not> isNonBlankString (Some p) \<longrightarrow> createReplayFile c p us fsys = Inr fsys"
    by (simp add: createReplayFile_blank)
  have writes: "isNonBlankString (Some p) \<and> writable fsys p \<longrightarrow>
      createReplayFile c p us fsys =
        Inr (fsys\<lparr>files := (files fsys)(p \<mapsto> replayDocument c us)\<rparr>) \<and>
      createReplayFile c p us (fsys\<lparr>files := (files fsys)(p \<mapsto> replayDocument c us)\<rparr>) =
        Inr (fsys\<lparr>files := (files fsys)(p \<mapsto> replayDocument c us)\<rparr>)"
    by (simp add: createReplayFile_writes)
  have doc: "replayDocument c us =
     JObj [(''skillId'', JStr (p_skillId c)), (''locale'', JStr (p_locale c)),
           (''type'', JStr ''text''), (''userInput'', JArr (map JStr us))]"
    by (simp add: replayDocument_def)
  have len: "\<And>xs. map_option length (userInput (replayDocument c xs)) = Some (length xs)"
    by (simp add: userInput_replayDocument)
  have plain: "isNonBlankString (Some args) \<and> split_space (trim args) = [p] \<and> writable fsys p \<longrightarrow>
      files (fs_after (recordCommand c args fsys)) p = Some (replayDocument c (utteranceCache c))"
    by (simp add: recordCommand_plain)
  have quit: "isNonBlankString (Some args) \<and> split_space (trim args) = [p, ''--append-quit'']
      \<and> writable fsys p \<longrightarrow>
      files (fs_after (recordCommand c args fsys)) p =
        Some (replayDocument c (utteranceCache c @ [''.quit'']))"
    by (simp add: recordCommand_append_quit)
  have len_quit: "map_option length (userInput (replayDocument c (utteranceCache c @ [''.quit'']))) =
      Some (length (utteranceCache c) + 1)"
    by (simp add: userInput_replayDocument)
  from blank writes doc len [of us] len [of "utteranceCache c"] len_quit plain quit
  show ?thesis by blast
qed

theorem createReplayFile_contract_witness:
  "\<not> isNonBlankString (Some ''  '') \<and>
   createReplayFile sample_controller ''  '' [''hello''] sample_filesystem = Inr sample_filesystem \<and>
   isNonBlankString (Some ''replay.json'') \<and> writable sample_filesystem ''replay.json'' \<and>
   files sample_filesystem ''replay.json'' = Some (JStr ''an older file'') \<and>
   createReplayFile sample_controller ''replay.json'' [''hello''] sample_filesystem =
     Inr (sample_filesystem\<lparr>files := (files sample_filesystem)
            (''replay.json'' \<mapsto> replayDocument sample_controller [''hello''])\<rparr>) \<and>
   isNonBlankString (Some ''replay.json'') \<and>
   split_space (trim ''replay.json'') = [''replay.json''] \<and>
   files (fs_after (recordCommand (sample_controller\<lparr>utteranceCache := [''hello'']\<rparr>)
            ''replay.json'' sample_filesystem)) ''replay.json'' =
     Some (replayDocument (sample_controller\<lparr>utteranceCache := [''hello'']\<rparr>) [''hello'']) \<and>
   isNonBlankString (Some ''replay.json --append-quit'') \<and>
   split_space (trim ''replay.json --append-quit'') = [''replay.json'', ''--append-quit''] \<and>
   files (fs_after (recordCommand (sample_controller\<lparr>utteranceCache := [''hello'']\<rparr>)
            ''replay.json --append-quit'' sample_filesystem)) ''replay.json'' =
     Some (replayDocument (sample_controller\<lparr>utteranceCache := [''hello'']\<rparr>)
            [''hello'', ''.quit''])"
proof -
  have a: "isNonBlankString (Some ''replay.json'')"
    and b: "\<not> isNonBlankString (Some ''  '')"
    and c: "isNonBlankString (Some ''replay.json --append-quit'')"
    by (simp_all add: isNonBlankString_def trim_def isWhiteSpace_def)
  have d: "split_space (trim ''replay.json --append-quit'') = [''replay.json'', ''--append-quit'']"
    and d': "split_space (trim ''replay.json'') = [''replay.json'']"
    by (simp_all add: trim_def isWhiteSpace_def)
  have e: "writable sample_filesystem ''replay.json''"
    and f: "files sample_filesystem ''replay.json'' = Some (JStr ''an older file'')"
    by (simp_all add: sample_filesystem_def)
  have w1: "createReplayFile sample_controller ''  '' [''hello''] sample_filesystem =
      Inr sample_filesystem"
    using b createReplayFile_contract [of "''  ''" sample_controller "[''hello'']"
        sample_filesystem "''replay.json''"]
    by blast
  have w2: "createReplayFile sample_controller ''replay.json'' [''hello''] sample_filesystem =
     Inr (sample_filesystem\<lparr>files := (files sample_filesystem)
            (''replay.json'' \<mapsto> replayDocument sample_controller [''hello''])\<rparr>)"
    using a e createReplayFile_contract [of "''replay.json''" sample_controller "[''hello'']"
        sample_filesystem "''replay.json''"]
    by blast
  have w3: "files (fs_after (recordCommand (sample_controller\<lparr>utteranceCache := [''hello'']\<rparr>)
            ''replay.json'' sample_filesystem)) ''replay.json'' =
     Some (replayDocument (sample_controller\<lparr>utteranceCache := [''hello'']\<rparr>)
            (utteranceCache (sample_controller\<lparr>utteranceCache := [''hello'']\<rparr>)))"
    using a d' e createReplayFile_contract [of "''replay.json''"
        "sample_controller\<lparr>utteranceCache := [''hello'']\<rparr>" "[''hello'']"
        sample_filesystem "''replay.json''"]
    by blast
  have w4: "files (fs_after (recordCommand (sample_controller\<lparr>utteranceCache := [''hello'']\<rparr>)
            ''replay.json --append-quit'' sample_filesystem)) ''replay.json'' =
     Some (replayDocument (sample_controller\<lparr>utteranceCache := [''hello'']\<rparr>)
            (utteranceCache (sample_controller\<lparr>utteranceCache := [''hello'']\<rparr>) @ [''.quit'']))"
    using c d e createReplayFile_contract [of "''replay.json''"
        "sample_controller\<lparr>utteranceCache := [''hello'']\<rparr>" "[''hello'']"
        sample_filesystem "''replay.json --append-quit''"]
    by blast
  from a b c d d' e f w1 w2 w3 w4 show ?thesis by simp
qed

section \<open>Claims about the config store\<close>

text \<open>
  Claim C8, as amended. The module keeps one instance, the last one constructed. Constructing
  \<open>AskStates\<close> for a path returns the kept instance, and creates nothing, when the kept instance
  has that path; when the kept instance has another path and the file can be read, a new
  instance is created and kept instead. So after every sequence of constructions, a
  construction that succeeded returns the same instance when it is repeated at once.
\<close>
theorem AskStates_reopen:
  "(instance_var m = Some i \<and> as_path i = p \<longrightarrow> AskStates disk p m = (Inr i, m)) \<and>
   (instance_var m = Some i \<and> as_path i \<noteq> p \<and> disk p = Some doc \<longrightarrow>
      AskStates disk p m =
        (Inr \<lparr>as_ref = allocated m, as_path = p, as_content = Some doc\<rparr>,
         \<lparr>instance_var = Some \<lparr>as_ref = allocated m, as_path = p, as_content = Some doc\<rparr>,
          allocated = Suc (allocated m)\<rparr>)) \<and>
   (AskStates disk p (snd (constructions disk ps m)) = (Inr j, m') \<longrightarrow>
      AskStates disk p m' = (Inr j, m'))"
proof -
  have "AskStates disk p m' = (Inr j, m')"
    if "AskStates disk p (snd (constructions disk ps m)) = (Inr j, m')"
  proof -
    from that have "instance_var m' = Some j \<and> as_path j = p" by (rule AskStates_result)
    then show ?thesis by (simp add: AskStates_current)
  qed
  then show ?thesis by (simp add: AskStates_current AskStates_other)
qed

theorem AskStates_reopen_witness:
  "AskStates sample_disk ''a.json'' (snd (constructions sample_disk [''a.json'', ''b.json''] initial_module))
     = (Inr \<lparr>as_ref = 2, as_path = ''a.json'', as_content = Some (JObj [])\<rparr>,
        \<lparr>instance_var = Some \<lparr>as_ref = 2, as_path = ''a.json'', as_content = Some (JObj [])\<rparr>,
         allocated = 3\<rparr>) \<and>
   AskStates sample_disk ''a.json''
     \<lparr>instance_var = Some \<lparr>as_ref = 2, as_path = ''a.json'', as_content = Some (JObj [])\<rparr>, allocated = 3\<rparr>
     = (Inr \<lparr>as_ref = 2, as_path = ''a.json'', as_content = Some (JObj [])\<rparr>,
        \<lparr>instance_var = Some \<lparr>as_ref = 2, as_path = ''a.json'', as_content = Some (JObj [])\<rparr>,
         allocated = 3\<rparr>)"
proof -
  have first: "AskStates sample_disk ''a.json''
      (snd (constructions sample_disk [''a.json'', ''b.json''] initial_module))
     = (Inr \<lparr>as_ref = 2, as_path = ''a.json'', as_content = Some (JObj [])\<rparr>,
        \<lparr>instance_var = Some \<lparr>as_ref = 2, as_path = ''a.json'', as_content = Some (JObj [])\<rparr>,
         allocated = 3\<rparr>)"
    by (simp add: sample_disk_def initial_module_def construct_defs numeral_2_eq_2 numeral_3_eq_3)
  show ?thesis
    using first AskStates_reopen [where disk = sample_disk and p = "''a.json''"
        and ps = "[''a.json'', ''b.json'']" and m = initial_module
        and j = "\<lparr>as_ref = 2, as_path = ''a.json'', as_content = Some (JObj [])\<rparr>"
        and m' = "\<lparr>instance_var = Some \<lparr>as_ref = 2, as_path = ''a.json'', as_content = Some (JObj [])\<rparr>,
         allocated = 3\<rparr>"]
    by simp
qed

text \<open>
  The claim C8 as stated fails: after the constructions for a.json, b.json and a.json again,
  the third one returns a new instance (number 2), not the instance that exists for a.json
  (number 0).
\<close>
theorem AskStates_single_slot_counterexample:
  "map (map_sum id as_ref)
     (fst (constructions sample_disk [''a.json'', ''b.json'', ''a.json''] initial_module))
     = [Inr 0, Inr 1, Inr 2]"
  by (simp add: sample_disk_def initial_module_def construct_defs)

section \<open>Claims about the metric client\<close>

text \<open>
  Claim C9. The promise of \<open>sendData\<close> is always resolved, never rejected. The client is
  constructed with 3 retries; with that value \<open>retry\<close> makes at most 3 POSTs, whatever their
  outcomes, and \<open>sendData\<close> resolves with success true when the client is disabled or one of
  the first 3 POSTs succeeds, and with success false otherwise.
\<close>
theorem sendData_never_rejects:
  "(\<exists>success. fst (sendData error now post mc) = Resolved success) \<and>
   postRetries (MetricClient is_enabled) = 3 \<and>
   (postRetries mc = 3 \<longrightarrow>
      snd (retry post (postRetries mc) 0) \<le> 3 \<and>
      fst (snd (sendData error now post mc)) \<le> 3 \<and>
      fst (sendData error now post mc) = Resolved (\<not> enabled mc \<or> (\<exists>k<3. post k = None)))"
proof -
  have a: "\<exists>success. fst (sendData error now post mc) = Resolved success"
    by (simp add: sendData_outcome)
  have b: "postRetries (MetricClient is_enabled) = 3" by (simp add: MetricClient_def)
  have c: "snd (retry post 3 0) \<le> 3" using retry_count[of 0 post 3] by simp
  have d: "postRetries mc = 3 \<Longrightarrow> fst (snd (sendData error now post mc)) \<le> 3"
    using c by (simp add: sendData_posts)
  have e: "postRetries mc = 3 \<Longrightarrow>
      fst (sendData error now post mc) = Resolved (\<not> enabled mc \<or> (\<exists>k<3. post k = None))"
    using retry_three[of post] by (simp add: sendData_outcome)
  from a b c d e show ?thesis by simp
qed

theorem sendData_never_rejects_witness:
  "postRetries (snd (startAction ''deploy'' ''command'' 1 ''id-1'' (MetricClient True))) = 3 \<and>
   fst (sendData (EError ''boom'') 7 (\<lambda>k. Some ''timeout'')
          (snd (startAction ''deploy'' ''command'' 1 ''id-1'' (MetricClient True)))) = Resolved False \<and>
   fst (snd (sendData (EError ''boom'') 7 (\<lambda>k. Some ''timeout'')
          (snd (startAction ''deploy'' ''command'' 1 ''id-1'' (MetricClient True))))) \<le> 3 \<and>
   fst (sendData ENull 7 (\<lambda>k. if k < 2 then Some ''timeout'' else None)
          (snd (startAction ''deploy'' ''command'' 1 ''id-1'' (MetricClient True)))) = Resolved True"
proof -
  have three: "postRetries (snd (startAction ''deploy'' ''command'' 1 ''id-1'' (MetricClient True))) = 3"
    and on: "enabled (snd (startAction ''deploy'' ''command'' 1 ''id-1'' (MetricClient True)))"
    by (simp_all add: startAction_def MetricClient_def Let_def)
  have ok: "\<exists>k<3. (if k < (2::nat) then Some ''timeout'' else None) = None"
    by (rule exI[of _ 2]) simp
  show ?thesis
    using three on ok
      sendData_never_rejects [of "EError ''boom''" 7 "\<lambda>k. Some ''timeout''"
        "snd (startAction ''deploy'' ''command'' 1 ''id-1'' (MetricClient True))" True]
      sendData_never_rejects [of ENull 7 "\<lambda>k. if k < 2 then Some ''timeout'' else None"
        "snd (startAction ''deploy'' ''command'' 1 ''id-1'' (MetricClient True))" True]
    by simp
qed

text \<open>
  Claim C10. Once \<open>end\<close> has been called on an action, a later call, with any argument and at
  any time, leaves the action as the first call set it: result, failureMessage and endTime
  are unchanged.
\<close>
theorem action_end_idempotent:
  "ma_ended (action_end e1 t1 a) \<and>
   action_end e2 t2 (action_end e1 t1 a) = action_end e1 t1 a \<and>
   ma_result (action_end e2 t2 (action_end e1 t1 a)) = ma_result (action_end e1 t1 a) \<and>
   ma_failureMessage (action_end e2 t2 (action_end e1 t1 a)) =
     ma_failureMessage (action_end e1 t1 a) \<and>
   ma_endTime (action_end e2 t2 (action_end e1 t1 a)) = ma_endTime (action_end e1 t1 a)"
  by (simp add: action_end_def Let_def)

theorem action_end_idempotent_witness:
  "action_end (EError ''boom'') 5 (MetricAction ''deploy'' ''command'' 1 ''id-1'') =
     \<lparr>ma_endTime = Some 5, ma_failureMessage = ''boom'', ma_name = ''deploy'',
      ma_result = Some ''Failure'', ma_startTime = 1, ma_type = ''command'', ma_id = ''id-1'',
      ma_ended = True\<rparr> \<and>
   action_end ENull 9 (action_end (EError ''boom'') 5 (MetricAction ''deploy'' ''command'' 1 ''id-1'')) =
     \<lparr>ma_endTime = Some 5, ma_failureMessage = ''boom'', ma_name = ''deploy'',
      ma_result = Some ''Failure'', ma_startTime = 1, ma_type = ''command'', ma_id = ''id-1'',
      ma_ended = True\<rparr>"
proof -
  have first: "action_end (EError ''boom'') 5 (MetricAction ''deploy'' ''command'' 1 ''id-1'') =
     \<lparr>ma_endTime = Some 5, ma_failureMessage = ''boom'', ma_name = ''deploy'',
      ma_result = Some ''Failure'', ma_startTime = 1, ma_type = ''command'', ma_id = ''id-1'',
      ma_ended = True\<rparr>"
    by (simp add: action_end_def MetricAction_def truthy_string_def)
  show ?thesis
    using first action_end_idempotent [of "EError ''boom''" 5
        "MetricAction ''deploy'' ''command'' 1 ''id-1''" ENull 9]
    by simp
qed

end
